theory Spec2Isabelle
  imports Main
begin

section \<open>The processor model of \<open>lab3/machine/cpu.py\<close>\<close>

text \<open>
  A shallow embedding of the classes \<open>DataPath\<close> and \<open>ControlUnit\<close> (with its nested
  \<open>Timer\<close>). Python's unbounded integers are \<^typ>\<open>int\<close>; Python's \<open>//\<close> and \<open>%\<close> are
  floor division and floor remainder, which is what \<open>div\<close> and \<open>mod\<close> on \<^typ>\<open>int\<close>
  compute for every non-zero divisor. Mutation of \<open>self\<close> is explicit state passing.

  An operation that can raise returns a sum: \<open>Inr\<close> carries the object after the call,
  \<open>Inl (e, s)\<close> says that the exception \<open>e\<close> was raised and that the object was in state
  \<open>s\<close> at that moment, so that what a failing call has already written stays visible.
\<close>

subsection \<open>Enumerations\<close>

text \<open>
  The enumerations \<open>Opcode\<close>, \<open>Operands\<close> and \<open>Signal\<close> are declared in modules outside
  \<open>cpu.py\<close>; the members below are the ones \<open>cpu.py\<close> names.
\<close>

datatype Opcode =
    ADD | SUB | MUL | DIV | REM | INC | DEC | CMP | MOVH
  | LOAD | STORE
  | JMP | JGE | JE | JNE
  | CALL | RET | IRET | FUNC
  | EI | DI | VECTOR | TIMER
  | PUSH | POP
  | IN | OUT | SIGN
  | HALT | ISR

datatype Operands = ACC | BUF | STACK | MEM

datatype Signal =
    DIRECT_ACC_LOAD | DIRECT_ADDRESS_LOAD
  | READ | WRITE
  | BUF_LATCH | STACK_LATCH
  | NEXT_IP | JMP_ARG | DATA_IP

text \<open>
  The exceptions the modelled code can raise are Python's own \<open>ZeroDivisionError\<close> (from
  \<open>//\<close> and \<open>%\<close>) and \<open>IndexError\<close> (from list subscripts). \<open>NoneInRegister\<close> is not an
  exception: it marks the one place where \<open>alu_working\<close> would store \<open>None\<close> in
  \<open>alu_out\<close> (an opcode that \<open>execute_alu_operation\<close> does not match); the registers of
  this model are integers, so the model stops there. \<open>AttributeError\<close> is a read of
  \<open>self.instr\<close> while the attribute does not exist, and \<open>DecoderError\<close> stands for any
  exception that the decoder module, which is outside \<open>cpu.py\<close>, raises on its own.
\<close>

datatype error = ZeroDivisionError | IndexError | AttributeError | DecoderError | NoneInRegister

subsection \<open>Python list subscripts\<close>

text \<open>
  \<open>xs[i]\<close>: a negative index counts from the end, and an index outside
  \<open>-len(xs) .. len(xs) - 1\<close> raises \<open>IndexError\<close>. \<open>py_index\<close> is the position read or
  written, when there is one.
\<close>

definition py_index :: "'a list \<Rightarrow> int \<Rightarrow> nat option" where
  "py_index xs i =
     (let len = int (length xs); j = (if i < 0 then len + i else i)
      in if 0 \<le> j \<and> j < len then Some (nat j) else None)"

definition py_get :: "'a list \<Rightarrow> int \<Rightarrow> 'a option" where
  "py_get xs i = (case py_index xs i of None \<Rightarrow> None | Some k \<Rightarrow> Some (xs ! k))"

definition py_set :: "'a list \<Rightarrow> int \<Rightarrow> 'a \<Rightarrow> 'a list option" where
  "py_set xs i v = (case py_index xs i of None \<Rightarrow> None | Some k \<Rightarrow> Some (xs[k := v]))"

subsection \<open>DataPath\<close>

text \<open>The dictionary \<open>flags\<close> always has exactly the keys \<open>"z"\<close> and \<open>"n"\<close>.\<close>

record Flags =
  flag_z :: bool
  flag_n :: bool

text \<open>
  The class of \<open>ports\<close> is outside \<open>cpu.py\<close>; it is the type parameter \<open>'p\<close>, and the
  two things \<open>cpu.py\<close> does with it (\<open>add_input\<close>, \<open>output_buffer\<close>) are parameters of
  the functions that use them.
\<close>

record 'p DataPath =
  data_memory :: "int list"
  ports :: 'p
  acc :: int
  buf_reg :: int
  stack_pointer :: int
  address_reg :: int
  memory_out :: int
  flags :: Flags
  alu_out :: int
  in_interruption :: bool

definition DataPath_init :: "int \<Rightarrow> 'p \<Rightarrow> 'p DataPath" where
  "DataPath_init memory_capacity prts =
     \<lparr> data_memory = replicate (nat memory_capacity) 0,
       ports = prts,
       acc = 0,
       buf_reg = 0,
       stack_pointer = 0,
       address_reg = 0,
       memory_out = 0,
       flags = \<lparr> flag_z = False, flag_n = False \<rparr>,
       alu_out = 0,
       in_interruption = False \<rparr>"

definition signal_latch_acc :: "Signal \<Rightarrow> int \<Rightarrow> 'p DataPath \<Rightarrow> 'p DataPath" where
  "signal_latch_acc sel load dp =
     dp\<lparr>acc := (if sel = DIRECT_ACC_LOAD then load else alu_out dp)\<rparr>"

definition signal_latch_address :: "Signal \<Rightarrow> int \<Rightarrow> 'p DataPath \<Rightarrow> 'p DataPath" where
  "signal_latch_address sel load dp =
     dp\<lparr>address_reg := (if sel = DIRECT_ADDRESS_LOAD then load else alu_out dp)\<rparr>"

definition memory_manager ::
  "Signal \<Rightarrow> 'p DataPath \<Rightarrow> (error \<times> 'p DataPath) + 'p DataPath" where
  "memory_manager operation dp =
     (if operation = READ then
        (case py_get (data_memory dp) (address_reg dp) of
           None \<Rightarrow> Inl (IndexError, dp)
         | Some v \<Rightarrow> Inr (dp\<lparr>memory_out := v\<rparr>))
      else if operation = WRITE then
        (case py_set (data_memory dp) (address_reg dp) (alu_out dp) of
           None \<Rightarrow> Inl (IndexError, dp)
         | Some m \<Rightarrow> Inr (dp\<lparr>data_memory := m\<rparr>))
      else Inr dp)"

definition signal_latch_regs :: "Signal list \<Rightarrow> 'p DataPath \<Rightarrow> 'p DataPath" where
  "signal_latch_regs regs dp =
     (let dp1 = (if BUF_LATCH \<in> set regs then dp\<lparr>buf_reg := alu_out dp\<rparr> else dp)
      in if STACK_LATCH \<in> set regs then dp1\<lparr>stack_pointer := alu_out dp1\<rparr> else dp1)"

text \<open>
  \<open>execute_alu_operation\<close> returns a value and, for \<open>CMP\<close>, also assigns \<open>flags\<close>; the
  model returns the data path together with the value. A \<open>match\<close> statement with no
  matching case falls through and the method returns \<open>None\<close>.
\<close>

definition execute_alu_operation ::
  "Opcode \<Rightarrow> int \<Rightarrow> 'p DataPath \<Rightarrow> (error \<times> 'p DataPath) + ('p DataPath \<times> int option)" where
  "execute_alu_operation operation val dp =
     (case operation of
        ADD \<Rightarrow> Inr (dp, Some (alu_out dp + val))
      | SUB \<Rightarrow> Inr (dp, Some (alu_out dp - val))
      | MUL \<Rightarrow> Inr (dp, Some (alu_out dp * val))
      | DIV \<Rightarrow> (if val = 0 then Inl (ZeroDivisionError, dp)
                else Inr (dp, Some (alu_out dp div val)))
      | REM \<Rightarrow> (if val = 0 then Inl (ZeroDivisionError, dp)
                else Inr (dp, Some (alu_out dp mod val)))
      | INC \<Rightarrow> Inr (dp, Some (alu_out dp + 1))
      | DEC \<Rightarrow> Inr (dp, Some (alu_out dp - 1))
      | CMP \<Rightarrow> Inr (dp\<lparr>flags := \<lparr> flag_z = (alu_out dp = val), flag_n = (alu_out dp < val) \<rparr>\<rparr>,
                    Some (alu_out dp))
      | MOVH \<Rightarrow> Inr (dp, Some (alu_out dp * 2 ^ 24))
      | _ \<Rightarrow> Inr (dp, None))"

definition get_bus_value :: "Operands \<Rightarrow> 'p DataPath \<Rightarrow> int" where
  "get_bus_value bus dp =
     (case bus of
        ACC \<Rightarrow> acc dp
      | BUF \<Rightarrow> buf_reg dp
      | STACK \<Rightarrow> stack_pointer dp
      | MEM \<Rightarrow> memory_out dp)"

text \<open>
  \<open>store_alu_result\<close> is the assignment \<open>self.alu_out = self.execute_alu_operation(...)\<close>
  of \<open>alu_working\<close>: an exception of the call propagates, and the value returned is
  stored in \<open>alu_out\<close>.
\<close>

definition store_alu_result ::
  "(error \<times> 'p DataPath) + ('p DataPath \<times> int option) \<Rightarrow> (error \<times> 'p DataPath) + 'p DataPath" where
  "store_alu_result r =
     (case r of
        Inl e \<Rightarrow> Inl e
      | Inr (dp, None) \<Rightarrow> Inl (NoneInRegister, dp)
      | Inr (dp, Some v) \<Rightarrow> Inr (dp\<lparr>alu_out := v\<rparr>))"

definition alu_working ::
  "Opcode \<Rightarrow> Operands list \<Rightarrow> 'p DataPath \<Rightarrow> (error \<times> 'p DataPath) + 'p DataPath" where
  "alu_working operation valves dp =
     (case valves of
        [] \<Rightarrow> Inl (IndexError, dp)
      | v0 # rest \<Rightarrow>
          (let dp1 = dp\<lparr>alu_out := get_bus_value v0 dp\<rparr>;
               dp2 = (if ACC \<in> set valves
                      then dp1\<lparr>flags := \<lparr> flag_z = (acc dp1 = 0), flag_n = (alu_out dp1 < 0) \<rparr>\<rparr>
                      else dp1)
           in if operation \<in> set [INC, DEC, MOVH] then
                store_alu_result (execute_alu_operation operation 0 dp2)
              else if length valves > 1 then
                store_alu_result
                  (execute_alu_operation operation (get_bus_value (valves ! 1) dp2) dp2)
              else Inr dp2))"

text \<open>The object as the call leaves it, whether it returned or raised.\<close>

definition state_after :: "(error \<times> 's) + 's \<Rightarrow> 's" where
  "state_after r = (case r of Inl (e, s) \<Rightarrow> s | Inr s \<Rightarrow> s)"

definition raised :: "(error \<times> 's) + 's \<Rightarrow> error option" where
  "raised r = (case r of Inl (e, s) \<Rightarrow> Some e | Inr s \<Rightarrow> None)"

subsection \<open>ControlUnit\<close>

record Timer =
  time :: int
  timer_delay :: int

definition Timer_init :: Timer where
  "Timer_init = \<lparr> time = - 2, timer_delay = 0 \<rparr>"

text \<open>
  An instruction is a dictionary with the keys \<open>"index"\<close>, \<open>"opcode"\<close> and, optionally,
  \<open>"arg"\<close>.
\<close>

record Instruction =
  index :: int
  opcode :: Opcode
  arg :: "int option"

text \<open>
  \<open>tick_counter\<close> is the attribute \<open>_tick\<close>. \<open>instr\<close> is \<open>None\<close> while the attribute
  \<open>self.instr\<close> does not exist: \<open>__init__\<close> does not create it, \<open>execute\<close> does. The
  logger only observes and is left out.
\<close>

record 'p ControlUnit =
  ip :: int
  instructions :: "Instruction list"
  data_path :: "'p DataPath"
  timer :: Timer
  tick_counter :: int
  int_vector :: int
  instr_counter :: int
  ei :: bool
  int_rq :: bool
  instr :: "Instruction option"

text \<open>
  \<open>__init__\<close> receives a list whose entry 0 is the header \<open>{"_start": start}\<close>; it reads
  \<open>start\<close> and deletes the header. \<open>ControlUnit_init start rest\<close> is the constructor on
  the list \<open>header # rest\<close>.
\<close>

definition ControlUnit_init :: "int \<Rightarrow> Instruction list \<Rightarrow> 'p DataPath \<Rightarrow> 'p ControlUnit" where
  "ControlUnit_init start rest dp =
     \<lparr> ip = start,
       instructions = rest,
       data_path = dp,
       timer = Timer_init,
       tick_counter = 0,
       int_vector = 0,
       instr_counter = 0,
       ei = False,
       int_rq = False,
       instr = None \<rparr>"

definition get_ticks :: "'p ControlUnit \<Rightarrow> int" where
  "get_ticks cu = tick_counter cu"

text \<open>
  \<open>tick\<close>; \<open>add_input\<close> is the method of the ports object, taken as a parameter.
\<close>

definition tick ::
  "(int \<Rightarrow> 'p \<Rightarrow> 'p) \<Rightarrow> 'p ControlUnit \<Rightarrow> (error \<times> 'p ControlUnit) + 'p ControlUnit" where
  "tick add_input cu =
     (let cu1 = cu\<lparr>tick_counter := tick_counter cu + 1\<rparr>;
          cu2 = cu1\<lparr>data_path :=
                  (data_path cu1)\<lparr>ports := add_input (tick_counter cu1) (ports (data_path cu1))\<rparr>\<rparr>;
          cu3 = cu2\<lparr>data_path := (data_path cu2)\<lparr>alu_out := 0\<rparr>\<rparr>;
          cu4 = cu3\<lparr>data_path := (data_path cu3)\<lparr>memory_out := 0\<rparr>\<rparr>
      in if ei cu4 then
           (let cu5 = cu4\<lparr>timer := (timer cu4)\<lparr>time := time (timer cu4) + 1\<rparr>\<rparr>
            in if timer_delay (timer cu5) = 0 then Inl (ZeroDivisionError, cu5)
               else if time (timer cu5) mod timer_delay (timer cu5) = 0
                    then Inr (cu5\<lparr>int_rq := True\<rparr>)
                    else Inr cu5)
         else Inr cu4)"

definition signal_latch_ip :: "Signal \<Rightarrow> int \<Rightarrow> 'p ControlUnit \<Rightarrow> 'p ControlUnit" where
  "signal_latch_ip signal a cu =
     (case signal of
        NEXT_IP \<Rightarrow> cu\<lparr>ip := ip cu + 1\<rparr>
      | JMP_ARG \<Rightarrow> cu\<lparr>ip := a\<rparr>
      | DATA_IP \<Rightarrow> cu\<lparr>ip := alu_out (data_path cu)\<rparr>
      | _ \<Rightarrow> cu)"

text \<open>
  The class \<open>Decoder\<close> is outside \<open>cpu.py\<close>. A decoder object has the attributes
  \<open>opcode\<close> and \<open>arg\<close> that \<open>execute\<close> reads and writes, and holds the control unit, which
  its methods mutate. Each method is a parameter: it maps the decoder object and the
  control unit to the two after the call, or raises. \<open>decode_flow_commands\<close> also returns
  the signal for the instruction pointer.
\<close>

record Decoder =
  decoder_opcode :: Opcode
  decoder_arg :: int

type_synonym 'p decoder_method =
  "Decoder \<Rightarrow> 'p ControlUnit \<Rightarrow> (error \<times> 'p ControlUnit) + (Decoder \<times> 'p ControlUnit)"

record 'p DecoderMethods =
  decode_memory_commands :: "'p decoder_method"
  decode_arithmetic_commands :: "'p decoder_method"
  decode_flow_commands ::
    "Decoder \<Rightarrow> 'p ControlUnit \<Rightarrow> (error \<times> 'p ControlUnit) + (Signal \<times> Decoder \<times> 'p ControlUnit)"
  decode_subprogram_commands :: "'p decoder_method"
  decode_interrupt_commands :: "'p decoder_method"
  decode_stack_commands :: "'p decoder_method"
  decode_io_commands :: "'p decoder_method"

definition arithmetic_operations :: "Opcode list" where
  "arithmetic_operations = [ADD, SUB, MUL, DIV, REM, INC, DEC, CMP, MOVH]"

text \<open>The chain of membership tests of \<open>execute\<close> that picks the decoder method.\<close>

definition dispatch ::
  "'p DecoderMethods \<Rightarrow> Decoder \<Rightarrow> 'p ControlUnit \<Rightarrow>
     (error \<times> 'p ControlUnit) + (Signal \<times> Decoder \<times> 'p ControlUnit)" where
  "dispatch D decode cu =
     (let keep = (\<lambda>r. case r of Inl e \<Rightarrow> Inl e | Inr (d, c) \<Rightarrow> Inr (NEXT_IP, d, c))
      in if decoder_opcode decode \<in> set [LOAD, STORE] then
           keep (decode_memory_commands D decode cu)
         else if decoder_opcode decode \<in> set arithmetic_operations then
           keep (decode_arithmetic_commands D decode cu)
         else if decoder_opcode decode \<in> set [JMP, JGE, JE, JNE] then
           decode_flow_commands D decode cu
         else if decoder_opcode decode \<in> set [CALL, RET, IRET, FUNC] then
           keep (decode_subprogram_commands D decode cu)
         else if decoder_opcode decode \<in> set [EI, DI, VECTOR, TIMER] then
           keep (decode_interrupt_commands D decode cu)
         else if decoder_opcode decode \<in> set [PUSH, POP] then
           keep (decode_stack_commands D decode cu)
         else if decoder_opcode decode \<in> set [IN, OUT, SIGN] then
           keep (decode_io_commands D decode cu)
         else Inr (NEXT_IP, decode, cu))"

text \<open>
  One iteration of the \<open>while\<close> loop of \<open>execute\<close>. Constructing the decoder object
  stores the opcode and the argument (0 when the instruction has none); the test of
  \<open>input_tokens\<close> guards a \<open>pass\<close> and has no effect.
\<close>

definition execute_body ::
  "'p DecoderMethods \<Rightarrow> 'p ControlUnit \<Rightarrow> (error \<times> 'p ControlUnit) + 'p ControlUnit" where
  "execute_body D cu =
     (case py_get (instructions cu) (ip cu) of
        None \<Rightarrow> Inl (IndexError, cu)
      | Some i \<Rightarrow>
          (let cu1 = cu\<lparr>instr := Some i\<rparr>;
               cu2 = cu1\<lparr>instr_counter := instr_counter cu1 + 1\<rparr>;
               decode = \<lparr> decoder_opcode = opcode i,
                          decoder_arg = (case arg i of Some a \<Rightarrow> a | None \<Rightarrow> 0) \<rparr>
           in case dispatch D decode cu2 of
                Inl e \<Rightarrow> Inl e
              | Inr (signal, decode1, cu3) \<Rightarrow>
                  (case instr cu3 of
                     None \<Rightarrow> Inl (AttributeError, cu3)
                   | Some i3 \<Rightarrow>
                       (let cu4 = (if opcode i3 \<notin> set [CALL, IRET]
                                   then signal_latch_ip signal (decoder_arg decode1) cu3
                                   else cu3)
                        in if int_rq cu4 then
                             (case decode_subprogram_commands D (decode1\<lparr>decoder_opcode := ISR\<rparr>) cu4 of
                                Inl e \<Rightarrow> Inl e
                              | Inr (decode2, cu5) \<Rightarrow> Inr cu5)
                           else Inr cu4))))"

text \<open>
  \<open>execute\<close>. The loop may run forever, so the function is partial: \<open>None\<close> is
  "does not return". \<open>output_buffer\<close> reads the list of strings of the ports object.
\<close>

type_synonym 'p execute_result =
  "(error \<times> 'p ControlUnit) + ((string \<times> int \<times> int) \<times> 'p ControlUnit)"

partial_function (option) execute ::
  "('p \<Rightarrow> string list) \<Rightarrow> 'p DecoderMethods \<Rightarrow> 'p ControlUnit \<Rightarrow> 'p execute_result option" where
  "execute output_buffer D cu =
     (case py_get (instructions cu) (ip cu) of
        None \<Rightarrow> Some (Inl (IndexError, cu))
      | Some i \<Rightarrow>
          if opcode i \<noteq> HALT then
            (case execute_body D cu of
               Inl e \<Rightarrow> Some (Inl e)
             | Inr cu' \<Rightarrow> execute output_buffer D cu')
          else
            (case py_get (instructions cu) (ip cu) of
               None \<Rightarrow> Some (Inl (IndexError, cu))
             | Some h \<Rightarrow>
                 (let cu1 = cu\<lparr>instr := Some h\<rparr>
                  in Some (Inr ((concat (output_buffer (ports (data_path cu1))),
                                 instr_counter cu1, tick_counter cu1), cu1)))))"

subsection \<open>Example states\<close>

text \<open>
  Concrete objects on which the theorems below are instantiated. The ports object of
  the examples is just its output buffer.
\<close>

definition example_dp :: "string list DataPath" where
  "example_dp =
     (DataPath_init 4 [''4'', ''2''])
       \<lparr> data_memory := [10, 20, 30, 40], acc := - 7, buf_reg := 2, address_reg := 2, alu_out := 5 \<rparr>"

definition example_halt :: Instruction where
  "example_halt = \<lparr> index = 0, opcode = HALT, arg = None \<rparr>"

definition example_cu :: "string list ControlUnit" where
  "example_cu =
     (ControlUnit_init 0 [example_halt] example_dp)
       \<lparr> ei := True, timer := \<lparr> time = 2, timer_delay = 3 \<rparr>, tick_counter := 9, instr_counter := 4 \<rparr>"

definition example_decoder :: "string list DecoderMethods" where
  "example_decoder =
     \<lparr> decode_memory_commands = (\<lambda>d cu. Inl (DecoderError, cu)),
       decode_arithmetic_commands = (\<lambda>d cu. Inl (DecoderError, cu)),
       decode_flow_commands = (\<lambda>d cu. Inl (DecoderError, cu)),
       decode_subprogram_commands = (\<lambda>d cu. Inl (DecoderError, cu)),
       decode_interrupt_commands = (\<lambda>d cu. Inl (DecoderError, cu)),
       decode_stack_commands = (\<lambda>d cu. Inl (DecoderError, cu)),
       decode_io_commands = (\<lambda>d cu. Inl (DecoderError, cu)) \<rparr>"

section \<open>Properties\<close>

subsection \<open>List subscripts and bus reads\<close>

lemma py_index_nonneg:
  "0 \<le> i \<Longrightarrow> i < int (length xs) \<Longrightarrow> py_index xs i = Some (nat i)"
  by (simp add: py_index_def)

lemma py_index_neg:
  "i < 0 \<Longrightarrow> - int (length xs) \<le> i \<Longrightarrow> py_index xs i = Some (nat (int (length xs) + i))"
  by (simp add: py_index_def)

lemma py_index_above: "int (length xs) \<le> i \<Longrightarrow> py_index xs i = None"
  by (simp add: py_index_def Let_def)

text \<open>The bus never reads \<open>alu_out\<close> or \<open>flags\<close>.\<close>

lemma get_bus_value_alu_out [simp]:
  "get_bus_value b (dp\<lparr>alu_out := v\<rparr>) = get_bus_value b dp"
  by (cases b) (simp_all add: get_bus_value_def)

lemma get_bus_value_flags [simp]:
  "get_bus_value b (dp\<lparr>flags := f\<rparr>) = get_bus_value b dp"
  by (cases b) (simp_all add: get_bus_value_def)

text \<open>
  With two or more operands and an operation that is not unary, \<open>alu_working\<close> loads
  the first operand, takes the flag snapshot if the accumulator is selected, and applies
  the operation to the second operand.
\<close>

lemma alu_working_two_operands:
  "operation \<notin> {INC, DEC, MOVH} \<Longrightarrow>
   alu_working operation (b1 # b2 # rest) dp =
     store_alu_result
       (execute_alu_operation operation (get_bus_value b2 dp)
          (if ACC \<in> set (b1 # b2 # rest)
           then dp\<lparr>alu_out := get_bus_value b1 dp,
                   flags := \<lparr> flag_z = (acc dp = 0), flag_n = (get_bus_value b1 dp < 0) \<rparr>\<rparr>
           else dp\<lparr>alu_out := get_bus_value b1 dp\<rparr>))"
  by (auto simp add: alu_working_def Let_def)

subsection \<open>The timer with delay 0\<close>

text \<open>
  C1. The claim: on a tick with timer delay 0 no interrupt request is raised and the
  tick completes, whether or not \<open>ei\<close> is set. The code evaluates
  \<open>self.timer.time % self.timer.timer_delay\<close> whenever \<open>ei\<close> is set, so with the delay a
  fresh \<open>Timer\<close> has (0) and interrupts enabled the tick raises \<open>ZeroDivisionError\<close>:
  no request is raised, but the tick does not complete.
\<close>

theorem tick_enabled_delay_zero_raises:
  "timer_delay (timer (example_cu\<lparr>timer := Timer_init\<rparr>)) = 0 \<and>
   ei (example_cu\<lparr>timer := Timer_init\<rparr>) \<and>
   raised (tick (\<lambda>t p. p) (example_cu\<lparr>timer := Timer_init\<rparr>)) = Some ZeroDivisionError \<and>
   \<not> int_rq (state_after (tick (\<lambda>t p. p) (example_cu\<lparr>timer := Timer_init\<rparr>)))"
  by (simp add: tick_def example_cu_def ControlUnit_init_def Timer_init_def
      raised_def state_after_def Let_def)

subsection \<open>Division and remainder by zero\<close>

text \<open>
  C2, as stated: \<open>alu_working\<close> with \<open>DIV\<close> or \<open>REM\<close> and a second operand 0 fails with a
  divide-by-zero error and mutates no register. It does fail so, but \<open>alu_out\<close> has
  already been loaded with the first operand and, the accumulator being selected, the
  flags have been recomputed: here \<open>alu_out\<close> goes from 5 to -7 and the negative flag
  from false to true.
\<close>

theorem alu_working_div_zero_mutates:
  "get_bus_value BUF (example_dp\<lparr>buf_reg := 0\<rparr>) = 0 \<and>
   raised (alu_working DIV [ACC, BUF] (example_dp\<lparr>buf_reg := 0\<rparr>)) = Some ZeroDivisionError \<and>
   alu_out (example_dp\<lparr>buf_reg := 0\<rparr>) = 5 \<and>
   alu_out (state_after (alu_working DIV [ACC, BUF] (example_dp\<lparr>buf_reg := 0\<rparr>))) = - 7 \<and>
   \<not> flag_n (flags (example_dp\<lparr>buf_reg := 0\<rparr>)) \<and>
   flag_n (flags (state_after (alu_working DIV [ACC, BUF] (example_dp\<lparr>buf_reg := 0\<rparr>))))"
  by (simp add: alu_working_def execute_alu_operation_def store_alu_result_def
      get_bus_value_def example_dp_def DataPath_init_def raised_def state_after_def Let_def)

text \<open>
  C2, amended: \<open>alu_working\<close> with \<open>DIV\<close> or \<open>REM\<close> and a second operand 0 raises
  \<open>ZeroDivisionError\<close>; at that moment the data path differs from the one before the
  call in \<open>alu_out\<close>, which holds the first operand, and, if the accumulator is among the
  operands, in the flags, which hold the snapshot taken from the accumulator and the
  loaded operand. The accumulator, buffer register, stack pointer, address register,
  \<open>memory_out\<close> and the data memory are as before.
\<close>

theorem alu_working_div_zero:
  fixes dp :: "'p DataPath"
  assumes "operation = DIV \<or> operation = REM" and "get_bus_value b2 dp = 0"
  shows "alu_working operation (b1 # b2 # rest) dp =
           Inl (ZeroDivisionError,
                dp\<lparr>alu_out := get_bus_value b1 dp,
                   flags := (if ACC \<in> set (b1 # b2 # rest)
                             then \<lparr> flag_z = (acc dp = 0), flag_n = (get_bus_value b1 dp < 0) \<rparr>
                             else flags dp)\<rparr>)"
  using assms
  by (auto simp add: alu_working_two_operands execute_alu_operation_def store_alu_result_def)

theorem alu_working_div_zero_witness:
  "get_bus_value BUF (example_dp\<lparr>buf_reg := 0\<rparr>) = 0 \<and>
   alu_working DIV [ACC, BUF] (example_dp\<lparr>buf_reg := 0\<rparr>) =
     Inl (ZeroDivisionError,
          example_dp\<lparr>buf_reg := 0, alu_out := - 7, flags := \<lparr> flag_z = False, flag_n = True \<rparr>\<rparr>) \<and>
   alu_working REM [STACK, BUF] (example_dp\<lparr>buf_reg := 0\<rparr>) =
     Inl (ZeroDivisionError, example_dp\<lparr>buf_reg := 0, alu_out := 0\<rparr>)"
  using alu_working_div_zero [of DIV BUF "example_dp\<lparr>buf_reg := 0\<rparr>" ACC "[]"]
    alu_working_div_zero [of REM BUF "example_dp\<lparr>buf_reg := 0\<rparr>" STACK "[]"]
  by (simp add: get_bus_value_def example_dp_def DataPath_init_def)

subsection \<open>The flag snapshot\<close>

text \<open>
  C3. Whenever the accumulator is among the operands of \<open>alu_working\<close> and the operation
  is not \<open>CMP\<close>, the flags the call leaves (also when it raises) are the snapshot taken
  before the operation is applied: zero says whether the accumulator itself is 0,
  negative says whether the value just loaded into \<open>alu_out\<close>, the first operand, is
  below 0.
\<close>

theorem alu_working_acc_flags:
  fixes dp :: "'p DataPath"
  assumes "ACC \<in> set valves" and "operation \<noteq> CMP"
  shows "flags (state_after (alu_working operation valves dp)) =
           \<lparr> flag_z = (acc dp = 0), flag_n = (get_bus_value (hd valves) dp < 0) \<rparr>"
proof (cases valves)
  case Nil
  with assms show ?thesis by simp
next
  case (Cons v0 rest)
  with assms show ?thesis
    by (cases operation)
      (auto simp add: alu_working_def execute_alu_operation_def store_alu_result_def
          state_after_def Let_def)
qed

theorem alu_working_acc_flags_witness:
  "ACC \<in> set [ACC] \<and> INC \<noteq> CMP \<and>
   alu_out (state_after (alu_working INC [ACC] (example_dp\<lparr>acc := - 1\<rparr>))) = 0 \<and>
   flags (state_after (alu_working INC [ACC] (example_dp\<lparr>acc := - 1\<rparr>))) =
     \<lparr> flag_z = False, flag_n = True \<rparr> \<and>
   ACC \<in> set [BUF, ACC] \<and> ADD \<noteq> CMP \<and>
   flags (state_after (alu_working ADD [BUF, ACC] (example_dp\<lparr>acc := 0\<rparr>))) =
     \<lparr> flag_z = True, flag_n = False \<rparr>"
  using alu_working_acc_flags [of "[ACC]" INC "example_dp\<lparr>acc := - 1\<rparr>"]
    alu_working_acc_flags [of "[BUF, ACC]" ADD "example_dp\<lparr>acc := 0\<rparr>"]
  by (simp add: alu_working_def execute_alu_operation_def store_alu_result_def
      get_bus_value_def example_dp_def DataPath_init_def state_after_def Let_def)

subsection \<open>Compare\<close>

text \<open>
  C4, as stated: after an ALU invocation with the compare operation \<open>alu_out\<close> has the
  value it had before, and the flags are zero = (\<open>alu_out\<close> = operand 2), negative =
  (\<open>alu_out\<close> < operand 2). \<open>alu_working\<close> first loads \<open>alu_out\<close> from the first bus
  operand: here \<open>alu_out\<close> is 5 before the call and -7, the accumulator, after it, and
  the negative flag is set although 5 is not below the second operand 2.
\<close>

theorem alu_working_compare_loads_alu_out:
  "get_bus_value BUF example_dp = 2 \<and>
   raised (alu_working CMP [ACC, BUF] example_dp) = None \<and>
   alu_out example_dp = 5 \<and>
   alu_out (state_after (alu_working CMP [ACC, BUF] example_dp)) = - 7 \<and>
   \<not> alu_out example_dp < get_bus_value BUF example_dp \<and>
   flag_n (flags (state_after (alu_working CMP [ACC, BUF] example_dp)))"
  by (simp add: alu_working_def execute_alu_operation_def store_alu_result_def
      get_bus_value_def example_dp_def DataPath_init_def raised_def state_after_def Let_def)

text \<open>
  C4, amended: \<open>alu_working\<close> with the compare operation and two or more bus operands
  returns; \<open>alu_out\<close> is then the value of the first bus operand, which was loaded before
  the compare was applied and which the compare does not change, and the flags are
  exactly zero = (operand 1 = operand 2), negative = (operand 1 < operand 2). Every other
  register and the data memory are as before the call.
\<close>

theorem alu_working_compare:
  fixes dp :: "'p DataPath"
  shows "alu_working CMP (b1 # b2 # rest) dp =
           Inr (dp\<lparr>alu_out := get_bus_value b1 dp,
                   flags := \<lparr> flag_z = (get_bus_value b1 dp = get_bus_value b2 dp),
                              flag_n = (get_bus_value b1 dp < get_bus_value b2 dp) \<rparr>\<rparr>)"
  by (simp add: alu_working_two_operands execute_alu_operation_def store_alu_result_def)

subsection \<open>Binary operations\<close>

text \<open>
  C5. \<open>alu_working\<close> with \<open>ADD\<close>, \<open>SUB\<close>, \<open>MUL\<close>, \<open>DIV\<close> or \<open>REM\<close> and two bus operands
  of values \<open>v1\<close> and \<open>v2\<close> (non-zero for \<open>DIV\<close> and \<open>REM\<close>) returns, and \<open>alu_out\<close> is then
  the sum, difference, product, floor quotient or floor remainder of \<open>v1\<close> and \<open>v2\<close>.
\<close>

theorem alu_working_binary_result:
  fixes dp :: "'p DataPath"
  assumes "get_bus_value b1 dp = v1" and "get_bus_value b2 dp = v2"
  shows "(\<exists>dp'. alu_working ADD (b1 # b2 # rest) dp = Inr dp' \<and> alu_out dp' = v1 + v2) \<and>
         (\<exists>dp'. alu_working SUB (b1 # b2 # rest) dp = Inr dp' \<and> alu_out dp' = v1 - v2) \<and>
         (\<exists>dp'. alu_working MUL (b1 # b2 # rest) dp = Inr dp' \<and> alu_out dp' = v1 * v2) \<and>
         (v2 \<noteq> 0 \<longrightarrow>
            (\<exists>dp'. alu_working DIV (b1 # b2 # rest) dp = Inr dp' \<and> alu_out dp' = v1 div v2)) \<and>
         (v2 \<noteq> 0 \<longrightarrow>
            (\<exists>dp'. alu_working REM (b1 # b2 # rest) dp = Inr dp' \<and> alu_out dp' = v1 mod v2))"
  using assms
  by (simp add: alu_working_two_operands execute_alu_operation_def store_alu_result_def)

theorem alu_working_binary_result_witness:
  "get_bus_value ACC example_dp = - 7 \<and> get_bus_value BUF example_dp = 2 \<and> (2::int) \<noteq> 0 \<and>
   (\<exists>dp'. alu_working ADD [ACC, BUF] example_dp = Inr dp' \<and> alu_out dp' = - 5) \<and>
   (\<exists>dp'. alu_working SUB [ACC, BUF] example_dp = Inr dp' \<and> alu_out dp' = - 9) \<and>
   (\<exists>dp'. alu_working MUL [ACC, BUF] example_dp = Inr dp' \<and> alu_out dp' = - 14) \<and>
   (\<exists>dp'. alu_working DIV [ACC, BUF] example_dp = Inr dp' \<and> alu_out dp' = - 4) \<and>
   (\<exists>dp'. alu_working REM [ACC, BUF] example_dp = Inr dp' \<and> alu_out dp' = 1)"
proof -
  have v1: "get_bus_value ACC example_dp = - 7"
    by (simp add: get_bus_value_def example_dp_def DataPath_init_def)
  have v2: "get_bus_value BUF example_dp = 2"
    by (simp add: get_bus_value_def example_dp_def DataPath_init_def)
  show ?thesis
    using v1 v2 alu_working_binary_result [OF v1 v2, of "[]"] by simp
qed

subsection \<open>The reset of the latches\<close>

text \<open>
  C6. \<open>tick\<close> resets \<open>alu_out\<close> and \<open>memory_out\<close> to 0, whether it then returns or
  raises; it writes no other register of the data path and invokes no signal, so every
  signal of the cycle finds the latches reset.
\<close>

theorem tick_resets_latches:
  fixes cu :: "'p ControlUnit"
  shows "alu_out (data_path (state_after (tick add_input cu))) = 0 \<and>
         memory_out (data_path (state_after (tick add_input cu))) = 0 \<and>
         data_path (state_after (tick add_input cu)) =
           (data_path cu)\<lparr>ports := add_input (tick_counter cu + 1) (ports (data_path cu)),
                          alu_out := 0, memory_out := 0\<rparr>"
  by (simp add: tick_def state_after_def Let_def)

subsection \<open>The timer\<close>

text \<open>
  C7. A new timer has \<open>time\<close> = -2, and a new control unit has a new timer. A tick adds
  exactly 1 to \<open>time\<close> when \<open>ei\<close> is set and leaves it alone when \<open>ei\<close> is not set. On a
  tick with \<open>ei\<close> set and a delay above 0, if the incremented \<open>time\<close> is a multiple of the
  delay then the tick returns with \<open>int_rq\<close> set.
\<close>

theorem timer_counts_and_requests:
  fixes cu :: "'p ControlUnit"
  shows "time Timer_init = - 2 \<and>
         timer (ControlUnit_init start rest dp :: 'p ControlUnit) = Timer_init \<and>
         time (timer (state_after (tick add_input cu))) =
           (if ei cu then time (timer cu) + 1 else time (timer cu)) \<and>
         (ei cu \<and> 0 < timer_delay (timer cu) \<and>
          (time (timer cu) + 1) mod timer_delay (timer cu) = 0 \<longrightarrow>
            raised (tick add_input cu) = None \<and> int_rq (state_after (tick add_input cu)))"
  by (simp add: tick_def state_after_def raised_def Let_def Timer_init_def ControlUnit_init_def)

theorem timer_counts_and_requests_witness:
  "ei example_cu \<and> 0 < timer_delay (timer example_cu) \<and>
   (time (timer example_cu) + 1) mod timer_delay (timer example_cu) = 0 \<and>
   \<not> int_rq example_cu \<and>
   time (timer (state_after (tick (\<lambda>t p. p) example_cu))) = 3 \<and>
   raised (tick (\<lambda>t p. p) example_cu) = None \<and>
   int_rq (state_after (tick (\<lambda>t p. p) example_cu))"
  using timer_counts_and_requests [of 0 "[]" example_dp "\<lambda>t p. p" example_cu]
  by (simp add: example_cu_def ControlUnit_init_def)

subsection \<open>Data memory\<close>

text \<open>
  C8. With the address register inside \<open>0 .. capacity - 1\<close>, \<open>READ\<close> copies the addressed
  cell into \<open>memory_out\<close> and \<open>WRITE\<close> stores \<open>alu_out\<close> in the addressed cell, and nothing
  else changes. With the address register at or above the capacity both raise
  \<open>IndexError\<close>, and nothing changes.
\<close>

theorem memory_manager_in_bounds:
  fixes dp :: "'p DataPath"
  shows "(0 \<le> address_reg dp \<and> address_reg dp < int (length (data_memory dp)) \<longrightarrow>
            memory_manager READ dp =
              Inr (dp\<lparr>memory_out := data_memory dp ! nat (address_reg dp)\<rparr>) \<and>
            memory_manager WRITE dp =
              Inr (dp\<lparr>data_memory := (data_memory dp)[nat (address_reg dp) := alu_out dp]\<rparr>)) \<and>
         (int (length (data_memory dp)) \<le> address_reg dp \<longrightarrow>
            memory_manager READ dp = Inl (IndexError, dp) \<and>
            memory_manager WRITE dp = Inl (IndexError, dp))"
  by (simp add: memory_manager_def py_get_def py_set_def py_index_nonneg py_index_above)

theorem memory_manager_in_bounds_witness:
  "0 \<le> address_reg example_dp \<and> address_reg example_dp < int (length (data_memory example_dp)) \<and>
   memory_manager READ example_dp = Inr (example_dp\<lparr>memory_out := 30\<rparr>) \<and>
   memory_manager WRITE example_dp = Inr (example_dp\<lparr>data_memory := [10, 20, 5, 40]\<rparr>) \<and>
   int (length (data_memory (example_dp\<lparr>address_reg := 4\<rparr>))) \<le> address_reg (example_dp\<lparr>address_reg := 4\<rparr>) \<and>
   memory_manager READ (example_dp\<lparr>address_reg := 4\<rparr>) =
     Inl (IndexError, example_dp\<lparr>address_reg := 4\<rparr>) \<and>
   memory_manager WRITE (example_dp\<lparr>address_reg := 4\<rparr>) =
     Inl (IndexError, example_dp\<lparr>address_reg := 4\<rparr>)"
  using memory_manager_in_bounds [of example_dp]
    memory_manager_in_bounds [of "example_dp\<lparr>address_reg := 4\<rparr>"]
  by (simp add: example_dp_def DataPath_init_def)

text \<open>
  C10. With the address register inside \<open>-capacity .. -1\<close> nothing is raised: \<open>READ\<close>
  and \<open>WRITE\<close> use the cell at index capacity + address register.
\<close>

theorem memory_manager_negative_wraps:
  fixes dp :: "'p DataPath"
  assumes "- int (length (data_memory dp)) \<le> address_reg dp" and "address_reg dp < 0"
  shows "memory_manager READ dp =
           Inr (dp\<lparr>memory_out :=
                  data_memory dp ! nat (int (length (data_memory dp)) + address_reg dp)\<rparr>) \<and>
         memory_manager WRITE dp =
           Inr (dp\<lparr>data_memory :=
                  (data_memory dp)
                    [nat (int (length (data_memory dp)) + address_reg dp) := alu_out dp]\<rparr>)"
  using assms by (simp add: memory_manager_def py_get_def py_set_def py_index_neg)

theorem memory_manager_negative_wraps_witness:
  "- int (length (data_memory (example_dp\<lparr>address_reg := - 1\<rparr>)))
     \<le> address_reg (example_dp\<lparr>address_reg := - 1\<rparr>) \<and>
   address_reg (example_dp\<lparr>address_reg := - 1\<rparr>) < 0 \<and>
   memory_manager READ (example_dp\<lparr>address_reg := - 1\<rparr>) =
     Inr (example_dp\<lparr>address_reg := - 1, memory_out := 40\<rparr>) \<and>
   memory_manager WRITE (example_dp\<lparr>address_reg := - 1\<rparr>) =
     Inr (example_dp\<lparr>address_reg := - 1, data_memory := [10, 20, 30, 5]\<rparr>)"
  using memory_manager_negative_wraps [of "example_dp\<lparr>address_reg := - 1\<rparr>"]
  by (simp add: example_dp_def DataPath_init_def)

subsection \<open>Halting\<close>

text \<open>
  C9. If the instruction at the instruction pointer has opcode \<open>HALT\<close>, \<open>execute\<close>
  returns at once: the result is the joined output buffer, the instruction counter and
  the tick counter, both as they were on entry, and the only attribute written is
  \<open>instr\<close>, which holds the halting instruction.
\<close>

theorem execute_halt:
  fixes cu :: "'p ControlUnit"
  assumes "py_get (instructions cu) (ip cu) = Some h" and "opcode h = HALT"
  shows "execute output_buffer D cu =
           Some (Inr ((concat (output_buffer (ports (data_path cu))),
                       instr_counter cu, tick_counter cu),
                      cu\<lparr>instr := Some h\<rparr>))"
  using assms by (subst execute.simps) simp

theorem execute_halt_witness:
  "py_get (instructions example_cu) (ip example_cu) = Some example_halt \<and>
   opcode example_halt = HALT \<and>
   execute (\<lambda>p. p) example_decoder example_cu =
     Some (Inr ((''42'', 4, 9), example_cu\<lparr>instr := Some example_halt\<rparr>))"
proof -
  have h1: "py_get (instructions example_cu) (ip example_cu) = Some example_halt"
    by (simp add: example_cu_def ControlUnit_init_def py_get_def py_index_def)
  have h2: "opcode example_halt = HALT"
    by (simp add: example_halt_def)
  show ?thesis
    using h1 h2 execute_halt [OF h1 h2, of "\<lambda>p. p" example_decoder]
    by (simp add: example_cu_def ControlUnit_init_def example_dp_def DataPath_init_def)
qed

end
